theory Spec2Isabelle
  imports Complex_Main "HOL-Library.Sublist"
begin

section \<open>Python values\<close>

text \<open>
  A Python \<open>str\<close> is a sequence of Unicode code points, so it is modelled as a list of
  naturals, one per code point. \<open>lit\<close> embeds an ASCII literal of the source.
\<close>

type_synonym pystr = "nat list"

definition lit :: "string \<Rightarrow> pystr" where
  "lit s = map of_char s"

text \<open>
  What \<open>process_user_message\<close> may receive as \<open>user_input\<close>: the annotation says \<open>str\<close>,
  the body also tests for anything else (\<open>get_user_input\<close> returns \<open>None\<close> when nothing
  was typed).
\<close>

datatype pyval = Str pystr | NoneVal | IntVal int | BoolVal bool | ListVal "pyval list"

text \<open>Python truth value of an object, as \<open>not user_input\<close> tests it.\<close>

fun truthy :: "pyval \<Rightarrow> bool" where
  "truthy (Str t) = (t \<noteq> [])"
| "truthy NoneVal = False"
| "truthy (IntVal i) = (i \<noteq> 0)"
| "truthy (BoolVal b) = b"
| "truthy (ListVal vs) = (vs \<noteq> [])"

text \<open>\<open>isinstance(user_input, str)\<close>.\<close>

fun isinstance_str :: "pyval \<Rightarrow> bool" where
  "isinstance_str (Str t) = True"
| "isinstance_str v = False"

text \<open>
  \<open>str.isspace\<close> on one code point, the test \<open>str.strip()\<close> applies: the code points
  U+0009..U+000D, U+001C..U+0020, U+0085, U+00A0, U+1680, U+2000..U+200A, U+2028, U+2029,
  U+202F, U+205F and U+3000.
\<close>

definition isspace :: "nat \<Rightarrow> bool" where
  "isspace c =
     ((9 \<le> c \<and> c \<le> 13) \<or> (28 \<le> c \<and> c \<le> 32) \<or> c = 133 \<or> c = 160 \<or> c = 5760
      \<or> (8192 \<le> c \<and> c \<le> 8202) \<or> c = 8232 \<or> c = 8233 \<or> c = 8239 \<or> c = 8287
      \<or> c = 12288)"

text \<open>
  \<open>str.strip()\<close> without argument: skip whitespace from the left, then from the right of
  what is left.
\<close>

definition strip :: "pystr \<Rightarrow> pystr" where
  "strip t = rev (dropWhile isspace (rev (dropWhile isspace t)))"

text \<open>
  What a call of a collaborator does: it returns a value or raises. \<open>Exception m\<close> is an
  instance of Python's \<open>Exception\<close> whose \<open>str()\<close> is \<open>m\<close>, the kind an
  \<open>except Exception\<close> clause catches. \<open>SystemExiting m\<close> is a \<open>BaseException\<close> outside
  \<open>Exception\<close> (\<open>KeyboardInterrupt\<close>, \<open>SystemExit\<close>), which such a clause lets through.
\<close>

datatype pyexc = Exception pystr | SystemExiting pystr

datatype 'a outcome = Returns 'a | Raises pyexc

text \<open>
  The dictionaries exchanged with OmniGuard: string values and nested dictionaries, keys
  in insertion order.
\<close>

datatype json = JStr pystr | JObj "(pystr \<times> json) list"

fun get_key :: "json \<Rightarrow> pystr \<Rightarrow> json option" where
  "get_key (JObj kvs) k = map_of kvs k"
| "get_key (JStr t) k = None"

section \<open>Session state, collaborators and effects\<close>

text \<open>The entries of \<open>session_state\<close> that \<open>user_input.py\<close> reads or writes.\<close>

record message =
  role :: pystr
  content :: pystr

record session_state =
  turn_number :: int
  conversation_id :: pystr
  messages :: "message list"
  show_unfiltered_response :: bool
  raw_assistant_response :: "pystr option"

text \<open>
  The functions imported from \<open>omniguard\<close> and the callbacks handed to
  \<open>process_user_message\<close> are not part of these files; they are parameters of the model.
  \<open>omniguard_check\<close> is called without arguments and \<open>fetch_assistant_response\<close> with the
  user input only, so what they answer may depend on the ambient session: both receive
  the session state of the moment of the call. They return or raise. The callbacks
  \<open>update_conversation_context\<close> and \<open>process_omniguard_result\<close> are called outside any
  \<open>try\<close> and are not handed the dictionary: a call of them is an entry of the effect trace.
\<close>

record collaborators =
  generate_conversation_id :: "int \<Rightarrow> pystr"
  fetch_assistant_response :: "session_state \<Rightarrow> pystr \<Rightarrow> bool \<Rightarrow> pystr outcome"
  omniguard_check :: "session_state \<Rightarrow> json outcome"

text \<open>
  The effects of the module besides the dictionary, in the order they happen: calls of the
  collaborators with their arguments, what Streamlit is asked to display, and what is
  logged.
\<close>

datatype event =
    UpdateConversationContext
  | ChatMessage pystr pystr
  | Spinner pystr
  | FetchAssistantResponse pystr bool
  | StError pystr
  | LogException pystr
  | OmniguardCheck
  | ProcessOmniguardResult json pystr pystr

text \<open>
  A run ends with a session state, the effects so far, and the exception that left the
  function, if one did.
\<close>

record result =
  final :: session_state
  events :: "event list"
  escaped :: "pyexc option"

section \<open>\<open>components/chat/user_input.py\<close>\<close>

definition handle_raw_response :: "collaborators \<Rightarrow> pystr \<Rightarrow> session_state \<Rightarrow> result" where
  "handle_raw_response c user_input s =
     (if show_unfiltered_response s then
        (case fetch_assistant_response c s user_input True of
           Returns text \<Rightarrow>
             \<lparr>final = s\<lparr>raw_assistant_response := Some text\<rparr>,
              events = [Spinner (lit ''Fetching raw response...''),
                        FetchAssistantResponse user_input True],
              escaped = None\<rparr>
         | Raises (Exception ex) \<Rightarrow>
             \<lparr>final = s\<lparr>raw_assistant_response :=
                          Some (lit ''Error: Could not fetch raw response'')\<rparr>,
              events = [Spinner (lit ''Fetching raw response...''),
                        FetchAssistantResponse user_input True,
                        StError (lit ''Error fetching raw response: '' @ ex),
                        LogException (lit ''Exception occurred during raw response fetch'')],
              escaped = None\<rparr>
         | Raises (SystemExiting ex) \<Rightarrow>
             \<lparr>final = s,
              events = [Spinner (lit ''Fetching raw response...''),
                        FetchAssistantResponse user_input True],
              escaped = Some (SystemExiting ex)\<rparr>)
      else \<lparr>final = s, events = [], escaped = None\<rparr>)"

text \<open>The dictionary built in the \<open>except\<close> branch of \<open>handle_omniguard_check\<close>.\<close>

definition fallback_response :: json where
  "fallback_response =
     JObj [(lit ''response'',
            JObj [(lit ''action'', JStr (lit ''UserInputRejection'')),
                  (lit ''UserInputRejection'',
                   JStr (lit ''Safety system unavailable - please try again''))])]"

text \<open>
  The last two statements of \<open>handle_omniguard_check\<close>: the context string of the last
  message (empty when there is none) and the call of \<open>process_omniguard_result\<close>.
\<close>

definition last_context :: "session_state \<Rightarrow> pystr" where
  "last_context s =
     (if messages s \<noteq> [] then role (last (messages s)) @ lit '': '' @ content (last (messages s))
      else [])"

definition handle_omniguard_check :: "collaborators \<Rightarrow> pystr \<Rightarrow> session_state \<Rightarrow> result" where
  "handle_omniguard_check c user_input s =
     (case omniguard_check c s of
        Returns omniguard_response \<Rightarrow>
          \<lparr>final = s,
           events = [Spinner (lit ''OmniGuard...''), OmniguardCheck,
                     ProcessOmniguardResult omniguard_response user_input (last_context s)],
           escaped = None\<rparr>
      | Raises (Exception ex) \<Rightarrow>
          \<lparr>final = s,
           events = [Spinner (lit ''OmniGuard...''), OmniguardCheck,
                     StError (lit ''Error calling OmniGuard: '' @ ex),
                     LogException (lit ''Exception occurred during OmniGuard call''),
                     ProcessOmniguardResult fallback_response user_input (last_context s)],
           escaped = None\<rparr>
      | Raises (SystemExiting ex) \<Rightarrow>
          \<lparr>final = s,
           events = [Spinner (lit ''OmniGuard...''), OmniguardCheck],
           escaped = Some (SystemExiting ex)\<rparr>)"

text \<open>
  \<open>process_user_message\<close> after its guard, on the string \<open>t\<close> that passed it: lines 24 to
  34 of the source.
\<close>

definition accept_user_message :: "collaborators \<Rightarrow> pystr \<Rightarrow> session_state \<Rightarrow> result" where
  "accept_user_message c t s =
     (let user_input = strip t;
          s1 = s\<lparr>turn_number := turn_number s + 1\<rparr>;
          s2 = s1\<lparr>conversation_id := generate_conversation_id c (turn_number s1)\<rparr>;
          s3 = s2\<lparr>messages := messages s2 @ [\<lparr>role = lit ''user'', content = user_input\<rparr>]\<rparr>;
          shown = [UpdateConversationContext, ChatMessage (lit ''user'') user_input];
          r1 = handle_raw_response c user_input s3
      in (case escaped r1 of
            Some ex \<Rightarrow> \<lparr>final = final r1, events = shown @ events r1, escaped = Some ex\<rparr>
          | None \<Rightarrow>
              (let r2 = handle_omniguard_check c user_input (final r1)
               in \<lparr>final = final r2, events = shown @ events r1 @ events r2,
                   escaped = escaped r2\<rparr>)))"

definition process_user_message :: "collaborators \<Rightarrow> pyval \<Rightarrow> session_state \<Rightarrow> result" where
  "process_user_message c user_input s =
     (if \<not> truthy user_input \<or> \<not> isinstance_str user_input
      then \<lparr>final = s, events = [], escaped = None\<rparr>
      else (case user_input of
              Str t \<Rightarrow> accept_user_message c t s
            | _ \<Rightarrow> \<lparr>final = s, events = [], escaped = None\<rparr>))"

section \<open>\<open>0_Overview.py\<close>: the human-verification percentage\<close>

text \<open>
  The two entries of \<open>stats\<close> that line 139 of \<open>render_dataset_stats\<close> reads; they are
  counts, Python integers.
\<close>

record stats =
  needed_human_verification :: int
  total_sets :: int

datatype py_error = ZeroDivisionError

text \<open>
  Python's \<open>/\<close> on two integers: it raises \<open>ZeroDivisionError\<close> on a zero divisor and
  gives the quotient otherwise. The quotient is a real number here: the rounding of the
  floating-point result is left out.
\<close>

definition truediv :: "int \<Rightarrow> int \<Rightarrow> py_error + real" where
  "truediv a b = (if b = 0 then Inl ZeroDivisionError else Inr (real_of_int a / real_of_int b))"

text \<open>
  The conditional expression of line 139. The first component lists the divisions that
  were evaluated, as pairs of dividend and divisor; the second is the value of
  \<open>verification_percentage\<close>, or the error raised.
\<close>

definition verification_percentage :: "stats \<Rightarrow> (int \<times> int) list \<times> (py_error + real)" where
  "verification_percentage st =
     (if total_sets st > 0 then
        ([(needed_human_verification st, total_sets st)],
         (case truediv (needed_human_verification st) (total_sets st) of
            Inl e \<Rightarrow> Inl e
          | Inr q \<Rightarrow> Inr (q * 100)))
      else ([], Inr 0))"

section \<open>Properties of decisions and traces\<close>

text \<open>
  The decision response schema: the action is \<open>response.action\<close>, the rejection text is
  \<open>response.UserInputRejection\<close> or \<open>response.AssistantOutputRejection\<close>.
\<close>

definition response_field :: "json \<Rightarrow> pystr \<Rightarrow> json option" where
  "response_field d k =
     (case get_key d (lit ''response'') of Some r \<Rightarrow> get_key r k | None \<Rightarrow> None)"

definition action_of :: "json \<Rightarrow> pystr option" where
  "action_of d = (case response_field d (lit ''action'') of Some (JStr a) \<Rightarrow> Some a | _ \<Rightarrow> None)"

definition rejectionText :: "json \<Rightarrow> pystr option" where
  "rejectionText d =
     (case response_field d (lit ''UserInputRejection'') of
        Some (JStr t) \<Rightarrow> Some t
      | _ \<Rightarrow> (case response_field d (lit ''AssistantOutputRejection'') of
                Some (JStr t) \<Rightarrow> Some t
              | _ \<Rightarrow> None))"

text \<open>
  The invariant of a decision response: no rejection text when the action is \<open>allow\<close>, a
  non-empty one when it is not.
\<close>

definition decision_invariant :: "json \<Rightarrow> bool" where
  "decision_invariant d =
     (if action_of d = Some (lit ''allow'') then rejectionText d = None
      else (case rejectionText d of Some t \<Rightarrow> t \<noteq> [] | None \<Rightarrow> False))"

text \<open>The decisions a run hands to \<open>process_omniguard_result\<close>, in order.\<close>

fun resolved_decisions :: "event list \<Rightarrow> json list" where
  "resolved_decisions [] = []"
| "resolved_decisions (ProcessOmniguardResult d u ctx # es) = d # resolved_decisions es"
| "resolved_decisions (e # es) = resolved_decisions es"

text \<open>
  Whether every call of \<open>fetch_assistant_response\<close> in a trace comes after an \<open>allow\<close>
  decision was resolved; the flag says whether one was resolved before the trace starts.
\<close>

fun fetch_only_after_allow :: "bool \<Rightarrow> event list \<Rightarrow> bool" where
  "fetch_only_after_allow allowed [] = True"
| "fetch_only_after_allow allowed (FetchAssistantResponse u skip # es) =
     (allowed \<and> fetch_only_after_allow allowed es)"
| "fetch_only_after_allow allowed (ProcessOmniguardResult d u ctx # es) =
     fetch_only_after_allow (allowed \<or> action_of d = Some (lit ''allow'')) es"
| "fetch_only_after_allow allowed (e # es) = fetch_only_after_allow allowed es"

text \<open>The calls of \<open>fetch_assistant_response\<close> in a trace, with their arguments.\<close>

fun fetch_calls :: "event list \<Rightarrow> (pystr \<times> bool) list" where
  "fetch_calls [] = []"
| "fetch_calls (FetchAssistantResponse u skip # es) = (u, skip) # fetch_calls es"
| "fetch_calls (e # es) = fetch_calls es"

text \<open>The texts a trace puts on the page: chat messages, spinners and error boxes.\<close>

fun displayed :: "event list \<Rightarrow> pystr list" where
  "displayed [] = []"
| "displayed (ChatMessage r t # es) = t # displayed es"
| "displayed (Spinner t # es) = t # displayed es"
| "displayed (StError t # es) = t # displayed es"
| "displayed (e # es) = displayed es"

text \<open>Whether no displayed text contains the error string \<open>m\<close>.\<close>

definition error_string_hidden :: "pystr \<Rightarrow> event list \<Rightarrow> bool" where
  "error_string_hidden m es = (\<not> list_ex (sublist m) (displayed es))"

section \<open>Concrete sessions and collaborators\<close>

text \<open>
  A conversation id generator that tells turn numbers apart: a minus sign for a negative
  number, then one code point holding its magnitude.
\<close>

definition turn_id :: "int \<Rightarrow> pystr" where
  "turn_id n = (if n < 0 then [45, nat (- n)] else [nat n])"

definition fresh_session :: session_state where
  "fresh_session =
     \<lparr>turn_number = 0, conversation_id = turn_id 0, messages = [],
      show_unfiltered_response = False, raw_assistant_response = None\<rparr>"

text \<open>The same session with the option to show the unfiltered response switched on.\<close>

definition unfiltered_session :: session_state where
  "unfiltered_session = fresh_session\<lparr>show_unfiltered_response := True\<rparr>"

definition allow_response :: json where
  "allow_response = JObj [(lit ''response'', JObj [(lit ''action'', JStr (lit ''allow''))])]"

text \<open>Collaborators that answer: the assistant greets, OmniGuard allows.\<close>

definition world_up :: collaborators where
  "world_up =
     \<lparr>generate_conversation_id = turn_id,
      fetch_assistant_response = (\<lambda>s u skip. Returns (lit ''Hello!'')),
      omniguard_check = (\<lambda>s. Returns allow_response)\<rparr>"

text \<open>Collaborators that fail: both calls raise an \<open>Exception\<close> saying \<open>boom\<close>.\<close>

definition world_down :: collaborators where
  "world_down =
     \<lparr>generate_conversation_id = turn_id,
      fetch_assistant_response = (\<lambda>s u skip. Raises (Exception (lit ''boom''))),
      omniguard_check = (\<lambda>s. Raises (Exception (lit ''boom'')))\<rparr>"


text \<open>A response whose action is \<open>allow\<close> and which carries a rejection text all the same.\<close>

definition contradictory_response :: json where
  "contradictory_response =
     JObj [(lit ''response'',
            JObj [(lit ''action'', JStr (lit ''allow'')),
                  (lit ''UserInputRejection'', JStr (lit ''No.''))])]"

text \<open>Collaborators whose OmniGuard returns that response.\<close>

definition world_contradictory :: collaborators where
  "world_contradictory =
     \<lparr>generate_conversation_id = turn_id,
      fetch_assistant_response = (\<lambda>s u skip. Returns (lit ''Hello!'')),
      omniguard_check = (\<lambda>s. Returns contradictory_response)\<rparr>"

text \<open>
  Collaborators whose OmniGuard allows the start of a conversation and is busy afterwards,
  and a session that holds one user turn.
\<close>

definition world_picky :: collaborators where
  "world_picky =
     \<lparr>generate_conversation_id = turn_id,
      fetch_assistant_response = (\<lambda>s u skip. Raises (Exception (lit ''boom''))),
      omniguard_check =
        (\<lambda>s. if messages s = [] then Returns allow_response
             else Raises (Exception (lit ''busy'')))\<rparr>"

definition asked_session :: session_state where
  "asked_session =
     \<lparr>turn_number = 1, conversation_id = turn_id 1,
      messages = [\<lparr>role = lit ''user'', content = lit ''hi''\<rparr>],
      show_unfiltered_response = False, raw_assistant_response = None\<rparr>"

section \<open>Auxiliary facts\<close>

subsection \<open>Literals\<close>

lemma lit_eq_iff [simp]: "lit a = lit b \<longleftrightarrow> a = b"
  unfolding lit_def using inj_of_char [where ?'a = nat] by (simp add: inj_map_eq_map)

lemma lit_Nil_iff [simp]: "lit a = [] \<longleftrightarrow> a = []"
  by (simp add: lit_def)

subsection \<open>Stripping\<close>

lemma strip_whitespace: "list_all isspace t \<Longrightarrow> strip t = []"
proof -
  assume "list_all isspace t"
  then have "dropWhile isspace t = []"
    by (simp add: list_all_iff)
  then show ?thesis
    by (simp only: strip_def rev.simps dropWhile.simps)
qed

lemma strip_middle:
  "dropWhile isspace t = strip t @ rev (takeWhile isspace (rev (dropWhile isspace t)))"
proof -
  let ?m = "dropWhile isspace t"
  have "rev (takeWhile isspace (rev ?m) @ dropWhile isspace (rev ?m)) = ?m"
    by (simp only: takeWhile_dropWhile_id rev_rev_ident)
  then have "rev (dropWhile isspace (rev ?m)) @ rev (takeWhile isspace (rev ?m)) = ?m"
    by (simp only: rev_append)
  then show ?thesis
    by (simp only: strip_def)
qed

lemma strip_decomp:
  "t = takeWhile isspace t @ strip t @ rev (takeWhile isspace (rev (dropWhile isspace t)))"
proof -
  have "t = takeWhile isspace t @ dropWhile isspace t"
    by simp
  with strip_middle [of t] show ?thesis
    by metis
qed

lemma strip_trimmed:
  "list_all isspace (takeWhile isspace t) \<and>
   list_all isspace (rev (takeWhile isspace (rev (dropWhile isspace t))))"
  by (auto simp: list_all_iff dest: set_takeWhileD)

lemma strip_ends:
  assumes "strip t \<noteq> []"
  shows "\<not> isspace (hd (strip t)) \<and> \<not> isspace (last (strip t))"
proof -
  let ?m = "dropWhile isspace t"
  let ?k = "dropWhile isspace (rev ?m)"
  from assms have k: "?k \<noteq> []"
    by (simp add: strip_def)
  then have "\<not> isspace (hd ?k)"
    by (rule hd_dropWhile)
  moreover have "last (strip t) = hd ?k"
    using k by (simp add: strip_def last_rev)
  moreover have "?m \<noteq> []"
    using assms strip_middle [of t] by (metis append_is_Nil_conv)
  then have "\<not> isspace (hd ?m)"
    by (rule hd_dropWhile)
  moreover have "hd ?m = hd (strip t)"
    using assms strip_middle [of t] by (metis hd_append2)
  ultimately show ?thesis by simp
qed

subsection \<open>The functions of \<open>user_input.py\<close>\<close>

lemma action_of_fallback: "action_of fallback_response = Some (lit ''UserInputRejection'')"
  by (simp add: action_of_def response_field_def fallback_response_def)

lemma rejectionText_fallback:
  "rejectionText fallback_response = Some (lit ''Safety system unavailable - please try again'')"
  by (simp add: rejectionText_def response_field_def fallback_response_def)

lemma action_of_allow_response: "action_of allow_response = Some (lit ''allow'')"
  by (simp add: action_of_def response_field_def allow_response_def)

lemma rejectionText_allow_response: "rejectionText allow_response = None"
  by (simp add: rejectionText_def response_field_def allow_response_def)

lemma handle_omniguard_check_caught:
  "omniguard_check c s = Raises (Exception m) \<Longrightarrow>
   handle_omniguard_check c u s =
     \<lparr>final = s,
      events = [Spinner (lit ''OmniGuard...''), OmniguardCheck,
                StError (lit ''Error calling OmniGuard: '' @ m),
                LogException (lit ''Exception occurred during OmniGuard call''),
                ProcessOmniguardResult fallback_response u (last_context s)],
      escaped = None\<rparr>"
  by (simp add: handle_omniguard_check_def)

lemma handle_omniguard_check_final: "final (handle_omniguard_check c u s) = s"
  by (simp add: handle_omniguard_check_def split: outcome.splits pyexc.splits)

lemma handle_raw_response_fields:
  "turn_number (final (handle_raw_response c u s)) = turn_number s"
  "conversation_id (final (handle_raw_response c u s)) = conversation_id s"
  "messages (final (handle_raw_response c u s)) = messages s"
  "show_unfiltered_response (final (handle_raw_response c u s)) = show_unfiltered_response s"
  by (simp_all add: handle_raw_response_def split: outcome.splits pyexc.splits)

lemma process_user_message_Str:
  "t \<noteq> [] \<Longrightarrow> process_user_message c (Str t) s = accept_user_message c t s"
  by (simp add: process_user_message_def)

lemma accept_user_message_final:
  "final (accept_user_message c t s) =
     final (handle_raw_response c (strip t)
       (s\<lparr>turn_number := turn_number s + 1,
          conversation_id := generate_conversation_id c (turn_number s + 1),
          messages := messages s @ [\<lparr>role = lit ''user'', content = strip t\<rparr>]\<rparr>))"
  by (simp add: accept_user_message_def Let_def handle_omniguard_check_final
      split: option.splits)

lemma accept_user_message_fields:
  "turn_number (final (accept_user_message c t s)) = turn_number s + 1"
  "conversation_id (final (accept_user_message c t s)) =
     generate_conversation_id c (turn_number s + 1)"
  "messages (final (accept_user_message c t s)) =
     messages s @ [\<lparr>role = lit ''user'', content = strip t\<rparr>]"
  "show_unfiltered_response (final (accept_user_message c t s)) = show_unfiltered_response s"
  by (simp_all add: accept_user_message_final handle_raw_response_fields)

lemma decision_invariant_fallback: "decision_invariant fallback_response"
  by (simp add: decision_invariant_def action_of_fallback rejectionText_fallback)

lemma decision_invariant_allow_response: "decision_invariant allow_response"
  by (simp add: decision_invariant_def action_of_allow_response rejectionText_allow_response)

lemma resolved_decisions_handle_omniguard_check:
  "resolved_decisions (events (handle_omniguard_check c u s)) =
     (case omniguard_check c s of
        Returns r \<Rightarrow> [r]
      | Raises (Exception m) \<Rightarrow> [fallback_response]
      | Raises (SystemExiting m) \<Rightarrow> [])"
  by (simp add: handle_omniguard_check_def split: outcome.splits pyexc.splits)

subsection \<open>Traces\<close>

lemma fetch_calls_append: "fetch_calls (xs @ ys) = fetch_calls xs @ fetch_calls ys"
  by (induction xs rule: fetch_calls.induct) simp_all

lemma fetch_calls_handle_raw_response:
  "fetch_calls (events (handle_raw_response c u s)) =
     (if show_unfiltered_response s then [(u, True)] else [])"
  by (simp add: handle_raw_response_def split: outcome.splits pyexc.splits)

lemma fetch_calls_handle_omniguard_check:
  "fetch_calls (events (handle_omniguard_check c u s)) = []"
  by (simp add: handle_omniguard_check_def split: outcome.splits pyexc.splits)

lemma fetch_only_after_allow_handle_omniguard_check:
  "fetch_only_after_allow b (events (handle_omniguard_check c u s))"
  by (simp add: handle_omniguard_check_def split: outcome.splits pyexc.splits)

lemma fetch_calls_accept_user_message:
  "fetch_calls (events (accept_user_message c t s)) =
     (if show_unfiltered_response s then [(strip t, True)] else [])"
  by (simp add: accept_user_message_def Let_def fetch_calls_append
      fetch_calls_handle_raw_response fetch_calls_handle_omniguard_check
      split: option.splits)

lemma events_accept_user_message_off:
  "\<not> show_unfiltered_response s \<Longrightarrow>
   events (accept_user_message c t s) =
     [UpdateConversationContext, ChatMessage (lit ''user'') (strip t)] @
     events (handle_omniguard_check c (strip t)
       (s\<lparr>turn_number := turn_number s + 1,
          conversation_id := generate_conversation_id c (turn_number s + 1),
          messages := messages s @ [\<lparr>role = lit ''user'', content = strip t\<rparr>]\<rparr>))"
  by (simp add: accept_user_message_def Let_def handle_raw_response_def)

lemma take_events_accept_user_message_on:
  "show_unfiltered_response s \<Longrightarrow>
   take 4 (events (accept_user_message c t s)) =
     [UpdateConversationContext, ChatMessage (lit ''user'') (strip t),
      Spinner (lit ''Fetching raw response...''), FetchAssistantResponse (strip t) True]"
  by (simp add: accept_user_message_def Let_def handle_raw_response_def
      split: outcome.splits pyexc.splits)

section \<open>Verified properties\<close>

text \<open>
  C1. When \<open>omniguard_check\<close> raises inside \<open>handle_omniguard_check\<close>, no decision
  with the action \<open>allow\<close> reaches \<open>process_omniguard_result\<close>; when what it raises is
  an \<open>Exception\<close>, the function returns normally and the one decision handed on is the
  fallback, whose action is \<open>UserInputRejection\<close> and whose rejection text is the generic
  "Safety system unavailable - please try again".
\<close>

theorem fail_closed:
  assumes "omniguard_check c s = Raises e"
  shows "(\<forall>d \<in> set (resolved_decisions (events (handle_omniguard_check c u s))).
            action_of d \<noteq> Some (lit ''allow''))
       \<and> (\<forall>m. e = Exception m \<longrightarrow>
            resolved_decisions (events (handle_omniguard_check c u s)) = [fallback_response]
            \<and> escaped (handle_omniguard_check c u s) = None)
       \<and> action_of fallback_response = Some (lit ''UserInputRejection'')
       \<and> rejectionText fallback_response =
            Some (lit ''Safety system unavailable - please try again'')"
proof (cases e)
  case (Exception m)
  with assms show ?thesis
    by (simp add: handle_omniguard_check_caught action_of_fallback rejectionText_fallback)
next
  case (SystemExiting m)
  with assms show ?thesis
    by (simp add: handle_omniguard_check_def action_of_fallback rejectionText_fallback)
qed

theorem fail_closed_witness:
  "omniguard_check world_down fresh_session = Raises (Exception (lit ''boom''))
   \<and> resolved_decisions (events (handle_omniguard_check world_down (lit ''hi'') fresh_session))
       = [fallback_response]
   \<and> action_of fallback_response \<noteq> Some (lit ''allow'')"
proof -
  have h: "omniguard_check world_down fresh_session = Raises (Exception (lit ''boom''))"
    by (simp add: world_down_def)
  from fail_closed [OF h, of "lit ''hi''"] h show ?thesis
    by simp
qed

text \<open>
  C2, as stated, fails. With the option to show the unfiltered response switched on, the
  trace of \<open>process_user_message\<close> has a call of \<open>fetch_assistant_response\<close> that no
  \<open>allow\<close> decision precedes: \<open>handle_raw_response\<close> runs before
  \<open>handle_omniguard_check\<close>.
\<close>

theorem fetch_before_decision_counterexample:
  "\<not> fetch_only_after_allow False
       (events (process_user_message world_up (Str (lit ''hi'')) unfiltered_session))"
  by (simp add: process_user_message_def accept_user_message_def Let_def handle_raw_response_def
      handle_omniguard_check_def world_up_def unfiltered_session_def fresh_session_def)

text \<open>
  C2, amended. \<open>process_user_message\<close> calls \<open>fetch_assistant_response\<close> itself only
  under the option \<open>show_unfiltered_response\<close>. With the option off it makes no such call
  for any input, so every call it makes comes after an \<open>allow\<close> decision. With the
  option on and an accepted input it makes exactly one, with \<open>skip_omniguard=True\<close> on the
  stripped input, and this call is the fourth effect of the run, before OmniGuard is
  asked.
\<close>

theorem raw_fetch_behind_option:
  "(\<not> show_unfiltered_response s \<longrightarrow>
      fetch_calls (events (process_user_message c v s)) = []
      \<and> fetch_only_after_allow False (events (process_user_message c v s)))
   \<and> (show_unfiltered_response s \<and> t \<noteq> [] \<longrightarrow>
      fetch_calls (events (process_user_message c (Str t) s)) = [(strip t, True)]
      \<and> take 4 (events (process_user_message c (Str t) s)) =
        [UpdateConversationContext, ChatMessage (lit ''user'') (strip t),
         Spinner (lit ''Fetching raw response...''), FetchAssistantResponse (strip t) True])"
proof (intro conjI impI)
  assume off: "\<not> show_unfiltered_response s"
  show "fetch_calls (events (process_user_message c v s)) = []"
    using off
    by (cases v) (simp_all add: process_user_message_def fetch_calls_accept_user_message)
  show "fetch_only_after_allow False (events (process_user_message c v s))"
    using off
    by (cases v)
      (simp_all add: process_user_message_def events_accept_user_message_off
        fetch_only_after_allow_handle_omniguard_check)
next
  assume on: "show_unfiltered_response s \<and> t \<noteq> []"
  then show "fetch_calls (events (process_user_message c (Str t) s)) = [(strip t, True)]"
    by (simp add: process_user_message_Str fetch_calls_accept_user_message)
  from on show "take 4 (events (process_user_message c (Str t) s)) =
        [UpdateConversationContext, ChatMessage (lit ''user'') (strip t),
         Spinner (lit ''Fetching raw response...''), FetchAssistantResponse (strip t) True]"
    by (simp add: process_user_message_Str take_events_accept_user_message_on)
qed

theorem raw_fetch_behind_option_witness:
  "\<not> show_unfiltered_response fresh_session
   \<and> fetch_calls (events (process_user_message world_up (Str (lit ''hi'')) fresh_session)) = []
   \<and> show_unfiltered_response unfiltered_session
   \<and> fetch_calls (events (process_user_message world_up (Str (lit ''hi'')) unfiltered_session)) =
        [(strip (lit ''hi''), True)]"
proof -
  have off: "\<not> show_unfiltered_response fresh_session"
    by (simp add: fresh_session_def)
  have on: "show_unfiltered_response unfiltered_session \<and> lit ''hi'' \<noteq> []"
    by (simp add: unfiltered_session_def)
  from raw_fetch_behind_option [of fresh_session world_up "Str (lit ''hi'')" "lit ''hi''"] off
    raw_fetch_behind_option [of unfiltered_session world_up "Str (lit ''hi'')" "lit ''hi''"] on
  show ?thesis by blast
qed

text \<open>
  C3, as stated, fails. When \<open>omniguard_check\<close> raises an \<open>Exception\<close> whose error string
  is \<open>boom\<close>, one of the texts put on the page contains \<open>boom\<close>: the except branch calls
  \<open>st.error\<close> with the exception formatted into the message.
\<close>

theorem error_string_shown_counterexample:
  "\<not> error_string_hidden (lit ''boom'')
       (events (handle_omniguard_check world_down (lit ''hi'') fresh_session))"
  by (simp add: error_string_hidden_def handle_omniguard_check_def world_down_def)

text \<open>
  C3, amended. On a failure path the text that stands in for the result is fixed and does
  not depend on the exception: when \<open>omniguard_check\<close> raises an \<open>Exception\<close>, the decision
  handed on is a \<open>UserInputRejection\<close> with the text "Safety system unavailable - please
  try again";
  when the raw fetch raises one, the stored raw response is "Error: Could not fetch raw
  response". Nothing else is displayed than the spinner text and one error box, and no
  traceback; the error box, however, shows the exception's error string after the prefix
  "Error calling OmniGuard: " or "Error fetching raw response: ".
\<close>

theorem failure_messages_fixed:
  "(omniguard_check c s = Raises (Exception m) \<longrightarrow>
      map action_of (resolved_decisions (events (handle_omniguard_check c u s))) =
        [Some (lit ''UserInputRejection'')]
      \<and> map rejectionText (resolved_decisions (events (handle_omniguard_check c u s))) =
        [Some (lit ''Safety system unavailable - please try again'')]
      \<and> displayed (events (handle_omniguard_check c u s)) =
        [lit ''OmniGuard...'', lit ''Error calling OmniGuard: '' @ m])
   \<and> (show_unfiltered_response s \<and> fetch_assistant_response c s u True = Raises (Exception m) \<longrightarrow>
      raw_assistant_response (final (handle_raw_response c u s)) =
        Some (lit ''Error: Could not fetch raw response'')
      \<and> displayed (events (handle_raw_response c u s)) =
        [lit ''Fetching raw response...'', lit ''Error fetching raw response: '' @ m])"
  by (simp add: handle_omniguard_check_caught action_of_fallback rejectionText_fallback
      handle_raw_response_def)

theorem failure_messages_fixed_witness:
  "omniguard_check world_down unfiltered_session = Raises (Exception (lit ''boom''))
   \<and> show_unfiltered_response unfiltered_session
   \<and> fetch_assistant_response world_down unfiltered_session (lit ''hi'') True =
       Raises (Exception (lit ''boom''))
   \<and> displayed (events (handle_omniguard_check world_down (lit ''hi'') unfiltered_session)) =
       [lit ''OmniGuard...'', lit ''Error calling OmniGuard: '' @ lit ''boom'']
   \<and> raw_assistant_response (final (handle_raw_response world_down (lit ''hi'') unfiltered_session)) =
       Some (lit ''Error: Could not fetch raw response'')"
proof -
  have h: "omniguard_check world_down unfiltered_session = Raises (Exception (lit ''boom''))"
    "show_unfiltered_response unfiltered_session"
    "fetch_assistant_response world_down unfiltered_session (lit ''hi'') True =
       Raises (Exception (lit ''boom''))"
    by (simp_all add: world_down_def unfiltered_session_def)
  from failure_messages_fixed [of world_down unfiltered_session "lit ''boom''" "lit ''hi''"] h
  show ?thesis by blast
qed




text \<open>
  C5. For the empty string and for every input that is not a string,
  \<open>process_user_message\<close> does nothing: the session state is returned as it was (no turn
  appended, turn number and conversation id unchanged), with no effect and no exception.
\<close>

theorem rejected_input_noop:
  assumes "v = Str [] \<or> \<not> isinstance_str v"
  shows "process_user_message c v s = \<lparr>final = s, events = [], escaped = None\<rparr>"
  using assms by (cases v) (auto simp: process_user_message_def)

theorem rejected_input_noop_witness:
  "process_user_message world_up NoneVal fresh_session =
       \<lparr>final = fresh_session, events = [], escaped = None\<rparr>
   \<and> process_user_message world_up (Str []) fresh_session =
       \<lparr>final = fresh_session, events = [], escaped = None\<rparr>"
proof -
  have a: "NoneVal = Str [] \<or> \<not> isinstance_str NoneVal"
    by simp
  have b: "Str [] = Str [] \<or> \<not> isinstance_str (Str [])"
    by simp
  from rejected_input_noop [OF a, of world_up fresh_session]
    rejected_input_noop [OF b, of world_up fresh_session]
  show ?thesis by simp
qed

text \<open>
  C6, as stated, fails. \<open>handle_omniguard_check\<close> checks nothing about the response that
  \<open>omniguard_check\<close> returns: a response with the action \<open>allow\<close> and a rejection text is
  handed to \<open>process_omniguard_result\<close> as it came, and it breaks the invariant.
\<close>

theorem unvalidated_response_counterexample:
  "resolved_decisions
     (events (handle_omniguard_check world_contradictory (lit ''hi'') fresh_session)) =
     [contradictory_response]
   \<and> \<not> decision_invariant contradictory_response"
  by (simp add: handle_omniguard_check_def world_contradictory_def decision_invariant_def
      action_of_def rejectionText_def response_field_def contradictory_response_def)

text \<open>
  C6, amended. The one response that \<open>handle_omniguard_check\<close> constructs, the fail-closed
  fallback, satisfies the invariant of decision responses (rejection text absent under
  \<open>allow\<close>, present and non-empty otherwise), and it is the decision handed on when
  \<open>omniguard_check\<close> raises an \<open>Exception\<close>. A response that \<open>omniguard_check\<close> returns
  is handed on unchanged and unvalidated: the decisions handed on satisfy the invariant
  exactly when the returned response does.
\<close>

theorem decisions_handed_on:
  "decision_invariant fallback_response
   \<and> (omniguard_check c s = Raises (Exception m) \<longrightarrow>
        resolved_decisions (events (handle_omniguard_check c u s)) = [fallback_response])
   \<and> (omniguard_check c s = Returns r \<longrightarrow>
        resolved_decisions (events (handle_omniguard_check c u s)) = [r])
   \<and> (list_all decision_invariant (resolved_decisions (events (handle_omniguard_check c u s)))
        = (case omniguard_check c s of
             Returns r' \<Rightarrow> decision_invariant r'
           | Raises e \<Rightarrow> True))"
  by (simp add: decision_invariant_fallback resolved_decisions_handle_omniguard_check
      split: outcome.splits pyexc.splits)

theorem decisions_handed_on_witness:
  "omniguard_check world_up fresh_session = Returns allow_response
   \<and> resolved_decisions (events (handle_omniguard_check world_up (lit ''hi'') fresh_session)) =
       [allow_response]
   \<and> decision_invariant allow_response
   \<and> omniguard_check world_down fresh_session = Raises (Exception (lit ''boom''))
   \<and> resolved_decisions (events (handle_omniguard_check world_down (lit ''hi'') fresh_session)) =
       [fallback_response]
   \<and> decision_invariant fallback_response"
proof -
  have up: "omniguard_check world_up fresh_session = Returns allow_response"
    by (simp add: world_up_def)
  have down: "omniguard_check world_down fresh_session = Raises (Exception (lit ''boom''))"
    by (simp add: world_down_def)
  from decisions_handed_on [of world_up fresh_session "lit ''boom''" "lit ''hi''" allow_response] up
  have r1: "resolved_decisions (events (handle_omniguard_check world_up (lit ''hi'') fresh_session)) =
      [allow_response]"
    by blast
  from decisions_handed_on [of world_down fresh_session "lit ''boom''" "lit ''hi''" allow_response]
    down
  have r2: "resolved_decisions (events (handle_omniguard_check world_down (lit ''hi'') fresh_session))
      = [fallback_response]" and f: "decision_invariant fallback_response"
    by blast+
  from up down r1 r2 f decision_invariant_allow_response show ?thesis
    by blast
qed

text \<open>
  C7. The decisions that \<open>handle_omniguard_check\<close> hands to \<open>process_omniguard_result\<close>
  are determined by what \<open>omniguard_check\<close> answered, and by nothing else: the returned
  response itself, the fallback after an \<open>Exception\<close> whatever its error string, none
  when the exception passes the handler. Hence two runs in which \<open>omniguard_check\<close>
  answers alike hand on the same decisions, also when the user inputs, the session
  states or the other collaborators differ; in particular two runs on an identical
  session state with a deterministic \<open>omniguard_check\<close>.
\<close>

theorem same_answer_same_decision:
  assumes "omniguard_check c1 s1 = omniguard_check c2 s2"
  shows "resolved_decisions (events (handle_omniguard_check c1 u1 s1)) =
         resolved_decisions (events (handle_omniguard_check c2 u2 s2))
       \<and> resolved_decisions (events (handle_omniguard_check c1 u1 s1)) =
           (case omniguard_check c1 s1 of
              Returns r \<Rightarrow> [r]
            | Raises (Exception m) \<Rightarrow> [fallback_response]
            | Raises (SystemExiting m) \<Rightarrow> [])"
  using assms by (simp add: resolved_decisions_handle_omniguard_check)

theorem same_answer_same_decision_witness:
  "omniguard_check world_up fresh_session = omniguard_check world_picky fresh_session
   \<and> omniguard_check world_up asked_session \<noteq> omniguard_check world_picky asked_session
   \<and> resolved_decisions (events (handle_omniguard_check world_up (lit ''hi'') fresh_session)) =
       [allow_response]
   \<and> resolved_decisions (events (handle_omniguard_check world_picky (lit ''hi'') fresh_session)) =
       [allow_response]
   \<and> omniguard_check world_up asked_session = omniguard_check world_picky fresh_session
   \<and> resolved_decisions (events (handle_omniguard_check world_up (lit ''again'') asked_session)) =
       resolved_decisions (events (handle_omniguard_check world_picky (lit ''hi'') fresh_session))
   \<and> events (handle_omniguard_check world_up (lit ''again'') asked_session) \<noteq>
       events (handle_omniguard_check world_picky (lit ''hi'') fresh_session)"
proof -
  have same: "omniguard_check world_up fresh_session = omniguard_check world_picky fresh_session"
    by (simp add: world_up_def world_picky_def fresh_session_def)
  have other: "omniguard_check world_up asked_session = omniguard_check world_picky fresh_session"
    by (simp add: world_up_def world_picky_def fresh_session_def)
  have differ: "omniguard_check world_up asked_session \<noteq> omniguard_check world_picky asked_session"
    by (simp add: world_up_def world_picky_def asked_session_def)
  have up: "omniguard_check world_up fresh_session = Returns allow_response"
    by (simp add: world_up_def)
  have runs: "events (handle_omniguard_check world_up (lit ''again'') asked_session) \<noteq>
       events (handle_omniguard_check world_picky (lit ''hi'') fresh_session)"
    by (simp add: handle_omniguard_check_def world_up_def world_picky_def fresh_session_def)
  have r1: "resolved_decisions (events (handle_omniguard_check world_up (lit ''hi'') fresh_session))
      = [allow_response]"
    using conjunct2 [OF same_answer_same_decision [OF same, of "lit ''hi''" "lit ''hi''"]]
    by (simp add: up)
  have r2: "resolved_decisions (events (handle_omniguard_check world_picky (lit ''hi'') fresh_session))
      = [allow_response]"
    using conjunct1 [OF same_answer_same_decision [OF same, of "lit ''hi''" "lit ''hi''"]] r1
    by simp
  have r3: "resolved_decisions (events (handle_omniguard_check world_up (lit ''again'') asked_session))
      = resolved_decisions (events (handle_omniguard_check world_picky (lit ''hi'') fresh_session))"
    by (rule conjunct1 [OF same_answer_same_decision [OF other]])
  from same differ r1 r2 other r3 runs show ?thesis
    by blast
qed

text \<open>
  C8. For every non-empty string \<open>t\<close>, \<open>process_user_message\<close> raises the turn number by
  one and appends a user turn whose content is \<open>t\<close> stripped: \<open>t\<close> is the stripped
  content between two runs of whitespace, and the stripped content, when not empty,
  neither starts nor ends with whitespace. When \<open>t\<close> is whitespace only, the message is
  not rejected and the appended content is the empty string.
\<close>

theorem stripped_turn_appended:
  assumes "t \<noteq> []"
  shows "messages (final (process_user_message c (Str t) s)) =
           messages s @ [\<lparr>role = lit ''user'', content = strip t\<rparr>]
       \<and> turn_number (final (process_user_message c (Str t) s)) = turn_number s + 1
       \<and> (list_all isspace t \<longrightarrow> strip t = [])
       \<and> (\<exists>a b. t = a @ strip t @ b \<and> list_all isspace a \<and> list_all isspace b)
       \<and> (strip t \<noteq> [] \<longrightarrow> \<not> isspace (hd (strip t)) \<and> \<not> isspace (last (strip t)))"
proof -
  have "\<exists>a b. t = a @ strip t @ b \<and> list_all isspace a \<and> list_all isspace b"
    using strip_decomp [of t] strip_trimmed [of t] by blast
  with assms show ?thesis
    by (simp add: process_user_message_Str accept_user_message_fields strip_whitespace strip_ends)
qed

theorem stripped_turn_appended_witness:
  "[32, 10, 12288] \<noteq> ([] :: pystr) \<and> list_all isspace [32, 10, 12288]
   \<and> messages (final (process_user_message world_up (Str [32, 10, 12288]) fresh_session)) =
       [\<lparr>role = lit ''user'', content = []\<rparr>]
   \<and> turn_number (final (process_user_message world_up (Str [32, 10, 12288]) fresh_session)) = 1"
proof -
  have h: "[32, 10, 12288] \<noteq> ([] :: pystr)"
    by simp
  have w: "list_all isspace [32, 10, 12288]"
    by (simp add: isspace_def)
  from stripped_turn_appended [OF h, of world_up fresh_session] h w show ?thesis
    by (simp add: fresh_session_def)
qed

text \<open>
  C9. Whatever the fetch does (return, raise an \<open>Exception\<close>, or raise past the handler),
  \<open>handle_raw_response\<close> leaves the message list, the turn number and the conversation id
  as they were: the final state is the initial one with at most
  \<open>raw_assistant_response\<close> replaced.
\<close>

theorem raw_response_frame:
  "messages (final (handle_raw_response c u s)) = messages s
   \<and> turn_number (final (handle_raw_response c u s)) = turn_number s
   \<and> conversation_id (final (handle_raw_response c u s)) = conversation_id s
   \<and> final (handle_raw_response c u s) =
       s\<lparr>raw_assistant_response := raw_assistant_response (final (handle_raw_response c u s))\<rparr>"
  by (simp add: handle_raw_response_def split: outcome.splits pyexc.splits)

theorem raw_response_frame_witness:
  "final (handle_raw_response world_down (lit ''hi'') unfiltered_session) =
     unfiltered_session\<lparr>raw_assistant_response := Some (lit ''Error: Could not fetch raw response'')\<rparr>
   \<and> messages (final (handle_raw_response world_down (lit ''hi'') unfiltered_session)) =
       messages unfiltered_session"
proof -
  have "raw_assistant_response (final (handle_raw_response world_down (lit ''hi'') unfiltered_session))
      = Some (lit ''Error: Could not fetch raw response'')"
    by (simp add: handle_raw_response_def world_down_def unfiltered_session_def)
  with raw_response_frame [of world_down "lit ''hi''" unfiltered_session] show ?thesis
    by simp
qed

text \<open>
  C10. The human-verification percentage of \<open>render_dataset_stats\<close> never raises
  \<open>ZeroDivisionError\<close>: every division it evaluates has the divisor \<open>total_sets\<close> and
  this divisor is positive; when \<open>total_sets\<close> is 0 no division is evaluated and the
  percentage is 0; when it is positive the percentage is
  \<open>needed_human_verification / total_sets * 100\<close>.
\<close>

theorem percentage_never_divides_by_zero:
  "snd (verification_percentage st) \<noteq> Inl ZeroDivisionError
   \<and> (\<forall>(a, b) \<in> set (fst (verification_percentage st)). b = total_sets st \<and> 0 < b)
   \<and> (total_sets st = 0 \<longrightarrow> verification_percentage st = ([], Inr 0))
   \<and> (0 < total_sets st \<longrightarrow>
        snd (verification_percentage st) =
          Inr (real_of_int (needed_human_verification st) / real_of_int (total_sets st) * 100))"
  by (simp add: verification_percentage_def truediv_def)

theorem percentage_never_divides_by_zero_witness:
  "verification_percentage \<lparr>needed_human_verification = 0, total_sets = 0\<rparr> = ([], Inr 0)
   \<and> snd (verification_percentage \<lparr>needed_human_verification = 1, total_sets = 4\<rparr>) = Inr 25"
proof -
  let ?z = "\<lparr>needed_human_verification = 0, total_sets = 0\<rparr>"
  let ?q = "\<lparr>needed_human_verification = 1, total_sets = 4\<rparr>"
  have "total_sets ?z = 0" and "0 < total_sets ?q"
    by simp_all
  with percentage_never_divides_by_zero [of ?z] percentage_never_divides_by_zero [of ?q]
  show ?thesis by simp
qed

end
